theory Spec2Isabelle
  imports Complex_Main
begin

section \<open>JavaScript values used by the editor\<close>

text \<open>
  The development embeds the class \<open>FogifyEditor\<close> of the server-backed script (the
  second document of \<^verbatim>\<open>src/backend/README.md\<close>); \<^verbatim>\<open>src/script.js\<close> is the older
  variant with the same \<open>validateFile\<close>, \<open>formatDuration\<close> and \<open>formatFileSize\<close>.

  Strings are \<open>string\<close>, read as sequences of characters with code points below 256.
  The user-facing literals of the source are Korean; each one is a named constant whose
  value spells every non-ASCII character as \<open><U+XXXX>\<close> (its code point) and keeps the
  ASCII characters as they are.

  Numbers are \<open>number\<close>: \<open>NaN\<close>, or a finite double read as the rational it denotes.
  The infinities are not modelled, and arithmetic on finite numbers is exact.
\<close>

datatype number = NaN | Fin rat

text \<open>\<open>Math.round\<close>: the nearest integer, a tie going to the larger one.\<close>

definition Math_round :: "number \<Rightarrow> number" where
  "Math_round x = (case x of NaN \<Rightarrow> NaN | Fin q \<Rightarrow> Fin (of_int \<lfloor>q + 1 / 2\<rfloor>))"

text \<open>The remainder operator \<open>%\<close> on finite numbers: the result has the sign of the dividend.\<close>

definition js_rem :: "rat \<Rightarrow> rat \<Rightarrow> rat" where
  "js_rem a b = a - b * of_int (if 0 \<le> a / b then \<lfloor>a / b\<rfloor> else \<lceil>a / b\<rceil>)"

text \<open>Decimal digits of a natural number, and the string of an integer (below \<open>10^21\<close> in
  magnitude, where JavaScript prints an integer-valued number in plain decimal).\<close>

definition digit :: "nat \<Rightarrow> char" where
  "digit d = ''0123456789'' ! d"

fun digits :: "nat \<Rightarrow> string" where
  "digits n = (if n < 10 then [digit n] else digits (n div 10) @ [digit (n mod 10)])"

definition int_toString :: "int \<Rightarrow> string" where
  "int_toString i = (if i < 0 then CHR ''-'' # digits (nat (- i)) else digits (nat i))"

text \<open>The string a template literal gives for an integer-valued number (the only numbers the
  source interpolates are results of \<open>Math.round\<close> and \<open>Math.floor\<close>).\<close>

definition number_toString :: "number \<Rightarrow> string" where
  "number_toString x = (case x of NaN \<Rightarrow> ''NaN'' | Fin q \<Rightarrow> int_toString \<lfloor>q\<rfloor>)"

definition padStart :: "nat \<Rightarrow> char \<Rightarrow> string \<Rightarrow> string" where
  "padStart n c s = replicate (n - length s) c @ s"

text \<open>\<open>x.toFixed(f)\<close> for a finite \<open>x \<ge> 0\<close>: the integer \<open>n\<close> with \<open>n / 10^f\<close> nearest to \<open>x\<close>
  (the larger one on a tie), printed with \<open>f\<close> fraction digits.\<close>

definition toFixed :: "nat \<Rightarrow> rat \<Rightarrow> string" where
  "toFixed f x =
     (let n = nat \<lfloor>x * 10 ^ f + 1 / 2\<rfloor>
      in if f = 0 then digits n
         else digits (n div 10 ^ f) @ ''.'' @ padStart f CHR ''0'' (digits (n mod 10 ^ f)))"

text \<open>\<open>parseFloat(s) + ''\<close> for a plain decimal string \<open>s\<close> as \<open>toFixed\<close> returns it: the
  number is printed without the trailing zeros of its fraction, and without the point
  when no fraction digit is left.\<close>

definition parseFloat_toString :: "string \<Rightarrow> string" where
  "parseFloat_toString s =
     (let ip = takeWhile (\<lambda>c. c \<noteq> CHR ''.'') s;
          fp = drop (length ip + 1) s;
          fp' = rev (dropWhile (\<lambda>c. c = CHR ''0'') (rev fp))
      in if fp' = [] then ip else ip @ ''.'' @ fp')"

text \<open>\<open>Math.floor(Math.log(n) / Math.log(k))\<close> for an integer \<open>n \<ge> 1\<close>, computed exactly:
  the largest \<open>i\<close> with \<open>k^i \<le> n\<close>. (The floating-point quotient can only differ from it when
  \<open>n\<close> is within rounding error of a power of \<open>k\<close>.)\<close>

function floor_log :: "nat \<Rightarrow> nat \<Rightarrow> nat" where
  "floor_log k n = (if k < 2 \<or> n < k then 0 else Suc (floor_log k (n div k)))"
  by pat_completeness auto
termination
  by (relation "measure snd") auto

text \<open>\<open>s.split(sep)\<close> for a one-character separator: never the empty list.\<close>

fun split_on :: "char \<Rightarrow> string \<Rightarrow> string list" where
  "split_on sep [] = [[]]"
| "split_on sep (c # cs) =
     (if c = sep then [] # split_on sep cs
      else (case split_on sep cs of [] \<Rightarrow> [[c]] | seg # segs \<Rightarrow> (c # seg) # segs))"

text \<open>\<open>toLowerCase\<close> on code points below 256: \<open>A\<close>--\<open>Z\<close> and the accented capitals
  \<open>U+00C0\<close>--\<open>U+00DE\<close> (without the multiplication sign \<open>U+00D7\<close>) move up by 32.\<close>

definition toLowerCase_char :: "char \<Rightarrow> char" where
  "toLowerCase_char c =
     (let n = (of_char c :: nat)
      in if (65 \<le> n \<and> n \<le> 90) \<or> (192 \<le> n \<and> n \<le> 222 \<and> n \<noteq> 215)
         then char_of (n + 32) else c)"

definition toLowerCase :: "string \<Rightarrow> string" where
  "toLowerCase s = map toLowerCase_char s"

text \<open>\<open>toUpperCase\<close>, applied by the source to the ASCII list of formats only.\<close>

definition toUpperCase_char :: "char \<Rightarrow> char" where
  "toUpperCase_char c =
     (let n = (of_char c :: nat) in if 97 \<le> n \<and> n \<le> 122 then char_of (n - 32) else c)"

definition toUpperCase :: "string \<Rightarrow> string" where
  "toUpperCase s = map toUpperCase_char s"

definition startsWith :: "string \<Rightarrow> string \<Rightarrow> bool" where
  "startsWith s p = (take (length p) s = p)"

fun join :: "string \<Rightarrow> string list \<Rightarrow> string" where
  "join sep [] = []"
| "join sep [x] = x"
| "join sep (x # y # ys) = x @ sep @ join sep (y # ys)"

section \<open>Display formatting\<close>

text \<open>Line 482: "unknown", returned when \<open>isNaN(seconds)\<close>.\<close>

definition DURATION_UNKNOWN :: string where
  "DURATION_UNKNOWN = ''<U+C54C> <U+C218> <U+C5C6><U+C74C>''"

definition formatDuration :: "number \<Rightarrow> string" where
  "formatDuration seconds =
     (case seconds of
        NaN \<Rightarrow> DURATION_UNKNOWN
      | Fin s \<Rightarrow>
          (let hours = \<lfloor>s / 3600\<rfloor>;
               minutes = \<lfloor>js_rem s 3600 / 60\<rfloor>;
               secs = \<lfloor>js_rem s 60\<rfloor>
           in if hours > 0
              then int_toString hours @ '':'' @ padStart 2 CHR ''0'' (int_toString minutes)
                   @ '':'' @ padStart 2 CHR ''0'' (int_toString secs)
              else int_toString minutes @ '':'' @ padStart 2 CHR ''0'' (int_toString secs)))"

definition sizes :: "string list" where
  "sizes = [''Bytes'', ''KB'', ''MB'', ''GB'']"

text \<open>\<open>bytes\<close> is a byte count, a natural number. An index past the end of \<open>sizes\<close> reads
  \<open>undefined\<close>, which the concatenation prints as such.\<close>

definition formatFileSize :: "nat \<Rightarrow> string" where
  "formatFileSize bytes =
     (if bytes = 0 then ''0 Bytes''
      else
        (let k = 1024;
             i = floor_log k bytes
         in parseFloat_toString (toFixed 2 (of_nat bytes / of_nat k ^ i)) @ '' ''
            @ (if i < length sizes then sizes ! i else ''undefined'')))"

section \<open>Data model\<close>

text \<open>A \<open>File\<close> as the browser hands it over: its name, its size in bytes and its declared
  media type.\<close>

record File =
  file_name :: string
  file_size :: nat
  file_type :: string

text \<open>The body of a successful \<open>POST /upload\<close>.\<close>

record metadata =
  duration :: number
  width :: nat
  height :: nat
  frame_count :: nat
  fps :: number
  md_file_size :: nat

record upload_result =
  task_id :: string
  filename :: string
  metadata :: metadata

text \<open>The \<open>result\<close> of a \<open>complete\<close> message.\<close>

record analysis_result =
  detection_count :: nat
  total_frames :: nat

text \<open>A parsed message of the push channel, by its \<open>type\<close> tag; \<open>OtherEvent\<close> is any tag the
  \<open>switch\<close> has no case for.\<close>

datatype channel_event =
    ProgressEvent number string
  | CompleteEvent analysis_result
  | ErrorEvent string
  | OtherEvent

text \<open>The \<open>detail\<close> of the body of a response with a non-success status, as
  \<open>errorData.detail || fallback\<close> and \<open>new Error\<close> see it: absent, a string, or a value of
  another type, of which only its truthiness and the string it converts to matter.\<close>

datatype detail_value =
    Absent
  | DetailString string
  | DetailOther bool string

text \<open>The body of a response with a non-success status, as the code reads it: either
  \<open>await response.json()\<close> rejects (the body is not JSON) or reading \<open>detail\<close> throws (the
  body is \<open>null\<close>), with the message of that error, or the body is read and has a
  \<open>detail\<close>.\<close>

datatype error_body =
    Unreadable string
  | Body detail_value

text \<open>What an awaited \<open>fetch\<close> gives: the promise rejects with an error carrying a message
  (a network failure), or the response has a non-success status and a body, or it has a
  success status and a JSON body of the shape the backend's interface gives it (the
  backend is not part of the sources).\<close>

datatype 'a response =
    FetchFailed string
  | NotOk error_body
  | Ok 'a

text \<open>The requests the editor sends.\<close>

datatype request = PostUpload File | PostAnalyze string

text \<open>What the editor has handed to the event loop and not yet got back: the continuation
  of \<open>uploadFileToServer\<close> after its \<open>fetch\<close>, the continuation of \<open>startAnalysis\<close> after its
  \<open>fetch\<close>, and the callback of the one-second timer.\<close>

datatype continuation = AwaitUpload File | AwaitAnalyze | PlayerTimer File

text \<open>A \<open>WebSocket\<close> object: \<open>ws_closed\<close> says that \<open>close()\<close> has been called on it, after
  which the browser delivers no further message to its handler.\<close>

record web_socket =
  ws_url :: string
  ws_closed :: bool

text \<open>The children of the \<open>videoInfo\<close> element: the block \<open>showVideoInfo\<close> renders (file
  name, formatted duration, width, height, frame count, frames per second, formatted size)
  and the blocks \<open>onAnalysisComplete\<close> appends (detection count, total frames).\<close>

datatype info_block =
    VideoInfoBlock string string nat nat nat number string
  | AnalysisResultBlock nat nat

text \<open>
  The editor with everything it reads and writes: its own fields, the properties of the
  DOM elements it holds, the \<open>WebSocket\<close> objects it has created (\<open>websocket\<close> refers to one
  of them by position), the requests sent, the continuations outstanding, the number of
  object URLs created and the URLs passed to \<open>URL.revokeObjectURL\<close>.
  A property the code only writes holds what was last assigned to it. The code reads one
  property back, \<open>videoPlayer.src\<close>: \<open>videoPlayer_src\<close> is the \<open>src\<close> attribute of the player
  (\<open>None\<close> while it has none), and \<open>documentURL\<close> is the address of the page, which reading
  the property needs (see \<open>videoPlayer_src_get\<close>).
\<close>

record editor =
  currentFile :: "File option"
  currentTaskId :: "string option"
  websocket :: "nat option"
  fileInput_value :: string
  uploadProgress_display :: string
  progressFill_width :: string
  progressText_textContent :: string
  errorMessage_textContent :: string
  errorMessage_display :: string
  uploadSection_display :: string
  videoSection_display :: string
  videoPlayer_src :: "string option"
  documentURL :: string
  videoInfo :: "info_block list"
  sockets :: "web_socket list"
  requests :: "request list"
  pending :: "continuation list"
  objectURLs :: nat
  revoked :: "string list"

definition supportedFormats :: "string list" where
  "supportedFormats = [''mp4'', ''mov'', ''avi'', ''mkv'', ''webm'']"

definition maxFileSize :: nat where
  "maxFileSize = 500 * 1024 * 1024"

text \<open>The address of the page in the examples.\<close>

definition example_page :: string where
  "example_page = ''http://localhost/index.html''"

text \<open>The constructor, on a page whose elements carry no inline style, no content and no
  \<open>src\<close> yet (the page itself is not part of the sources; \<open>reachable\<close> below lets it have
  any address). \<open>supportedFormats\<close>, \<open>maxFileSize\<close> and the base URL are set here and never
  assigned again: they are constants.\<close>

definition new_FogifyEditor :: editor where
  "new_FogifyEditor =
     \<lparr> currentFile = None, currentTaskId = None, websocket = None,
       fileInput_value = [], uploadProgress_display = [], progressFill_width = [],
       progressText_textContent = [], errorMessage_textContent = [],
       errorMessage_display = [], uploadSection_display = [], videoSection_display = [],
       videoPlayer_src = None, documentURL = example_page, videoInfo = [], sockets = [],
       requests = [], pending = [], objectURLs = 0, revoked = [] \<rparr>"

section \<open>User-facing messages\<close>

text \<open>Line 198: "No file has been selected."\<close>

definition MSG_NO_FILE :: string where
  "MSG_NO_FILE = ''<U+D30C><U+C77C><U+C774> <U+C120><U+D0DD><U+B418><U+C9C0> <U+C54A><U+C558><U+C2B5><U+B2C8><U+B2E4>.''"

text \<open>Line 204: "The file is too large. Up to \<open>n\<close>MB is supported."\<close>

definition MSG_TOO_LARGE :: "string \<Rightarrow> string" where
  "MSG_TOO_LARGE n =
     ''<U+D30C><U+C77C> <U+D06C><U+AE30><U+AC00> <U+B108><U+BB34> <U+D07D><U+B2C8><U+B2E4>. <U+CD5C><U+B300> '' @ n
     @ ''MB<U+AE4C><U+C9C0> <U+C9C0><U+C6D0><U+B429><U+B2C8><U+B2E4>.''"

text \<open>Line 211: "Unsupported file format. Supported formats: \<open>fs\<close>"\<close>

definition MSG_BAD_FORMAT :: "string \<Rightarrow> string" where
  "MSG_BAD_FORMAT fs =
     ''<U+C9C0><U+C6D0><U+B418><U+C9C0> <U+C54A><U+B294> <U+D30C><U+C77C> <U+D615><U+C2DD><U+C785><U+B2C8><U+B2E4>. <U+C9C0><U+C6D0> <U+D615><U+C2DD>: '' @ fs"

text \<open>Line 217: "Only video files can be uploaded."\<close>

definition MSG_NOT_VIDEO :: string where
  "MSG_NOT_VIDEO = ''<U+BE44><U+B514><U+C624> <U+D30C><U+C77C><U+B9CC> <U+C5C5><U+B85C><U+B4DC><U+D560> <U+C218> <U+C788><U+C2B5><U+B2C8><U+B2E4>.''"

text \<open>Line 229: "Uploading the file..."\<close>

definition MSG_UPLOADING :: string where
  "MSG_UPLOADING = ''<U+D30C><U+C77C> <U+C5C5><U+B85C><U+B4DC> <U+C911>...''"

text \<open>Line 243: "The file upload failed."\<close>

definition MSG_UPLOAD_FAILED :: string where
  "MSG_UPLOAD_FAILED = ''<U+D30C><U+C77C> <U+C5C5><U+B85C><U+B4DC><U+C5D0> <U+C2E4><U+D328><U+D588><U+C2B5><U+B2C8><U+B2E4>.''"

text \<open>Line 255: "Upload complete! Starting the AI analysis..."\<close>

definition MSG_UPLOAD_DONE :: string where
  "MSG_UPLOAD_DONE = ''<U+C5C5><U+B85C><U+B4DC> <U+C644><U+B8CC>! AI <U+BD84><U+C11D><U+C744> <U+C2DC><U+C791><U+D569><U+B2C8><U+B2E4>...''"

text \<open>Line 320: "There is no task to analyse. Upload a file first."\<close>

definition MSG_NO_TASK :: string where
  "MSG_NO_TASK = ''<U+BD84><U+C11D><U+D560> <U+C791><U+C5C5><U+C774> <U+C5C6><U+C2B5><U+B2C8><U+B2E4>. <U+BA3C><U+C800> <U+D30C><U+C77C><U+C744> <U+C5C5><U+B85C><U+B4DC><U+D558><U+C138><U+C694>.''"

text \<open>Line 337: "Starting the analysis failed."\<close>

definition MSG_ANALYZE_FAILED :: string where
  "MSG_ANALYZE_FAILED = ''<U+BD84><U+C11D> <U+C2DC><U+C791><U+C5D0> <U+C2E4><U+D328><U+D588><U+C2B5><U+B2C8><U+B2E4>.''"

text \<open>Line 345: "Starting the AI face analysis..."\<close>

definition MSG_ANALYZING :: string where
  "MSG_ANALYZING = ''AI <U+C5BC><U+AD74> <U+BD84><U+C11D><U+C744> <U+C2DC><U+C791><U+D569><U+B2C8><U+B2E4>...''"

text \<open>Line 381: "There is a problem with the real-time connection."\<close>

definition MSG_CHANNEL_PROBLEM :: string where
  "MSG_CHANNEL_PROBLEM = ''<U+C2E4><U+C2DC><U+AC04> <U+C5F0><U+ACB0><U+C5D0> <U+BB38><U+C81C><U+AC00> <U+BC1C><U+C0DD><U+D588><U+C2B5><U+B2C8><U+B2E4>.''"

section \<open>Operations of the editor\<close>

definition showProgress :: "editor \<Rightarrow> editor" where
  "showProgress s = s\<lparr>uploadProgress_display := ''block''\<rparr>"

definition hideProgress :: "editor \<Rightarrow> editor" where
  "hideProgress s = s\<lparr>uploadProgress_display := ''none''\<rparr>"

text \<open>\<open>message || `${rounded}%`\<close>: the empty message is falsy.\<close>

definition updateProgress :: "editor \<Rightarrow> number \<Rightarrow> string \<Rightarrow> editor" where
  "updateProgress s percent message =
     (let rounded = Math_round percent
      in s\<lparr>progressFill_width := number_toString rounded @ ''%'',
            progressText_textContent :=
              (if message \<noteq> [] then message else number_toString rounded @ ''%'')\<rparr>)"

definition showError :: "editor \<Rightarrow> string \<Rightarrow> editor" where
  "showError s message = s\<lparr>errorMessage_textContent := message, errorMessage_display := ''block''\<rparr>"

definition hideError :: "editor \<Rightarrow> editor" where
  "hideError s = s\<lparr>errorMessage_display := ''none''\<rparr>"

text \<open>\<open>file.name.split('.').pop().toLowerCase()\<close>\<close>

definition fileExtension :: "File \<Rightarrow> string" where
  "fileExtension f = toLowerCase (last (split_on CHR ''.'' (file_name f)))"

text \<open>\<open>validateFile\<close> returns its verdict together with the editor, on which it may have
  shown an error. \<open>None\<close> is the missing file (\<open>undefined\<close> or \<open>null\<close>).\<close>

definition validateFile :: "editor \<Rightarrow> File option \<Rightarrow> bool \<times> editor" where
  "validateFile s file =
     (case file of
        None \<Rightarrow> (False, showError s MSG_NO_FILE)
      | Some f \<Rightarrow>
          if file_size f > maxFileSize
          then (False, showError s
                  (MSG_TOO_LARGE (number_toString (Fin (of_nat maxFileSize / (1024 * 1024))))))
          else if fileExtension f \<notin> set supportedFormats
          then (False, showError s (MSG_BAD_FORMAT (toUpperCase (join '', '' supportedFormats))))
          else if \<not> startsWith (file_type f) ''video/''
          then (False, showError s MSG_NOT_VIDEO)
          else (True, s))"

text \<open>The message of \<open>new Error(errorData.detail || fallback)\<close>: an absent detail and an
  empty string are falsy; a detail of another type, when truthy, is converted to a
  string.\<close>

definition detail_or :: "detail_value \<Rightarrow> string \<Rightarrow> string" where
  "detail_or detail fallback =
     (case detail of
        Absent \<Rightarrow> fallback
      | DetailString d \<Rightarrow> if d = [] then fallback else d
      | DetailOther truthy converted \<Rightarrow> if truthy then converted else fallback)"

definition showVideoInfo :: "editor \<Rightarrow> upload_result \<Rightarrow> editor" where
  "showVideoInfo s uploadResult =
     (let md = metadata uploadResult
      in s\<lparr>videoInfo :=
            [VideoInfoBlock (filename uploadResult) (formatDuration (duration md))
               (width md) (height md) (frame_count md) (fps md)
               (formatFileSize (md_file_size md))]\<rparr>)"

text \<open>\<open>URL.createObjectURL\<close> returns a fresh URL: the \<open>n\<close>-th one is \<open>blob:n\<close> here.\<close>

definition showVideoPlayer :: "editor \<Rightarrow> File \<Rightarrow> editor" where
  "showVideoPlayer s file =
     (let fileURL = ''blob:'' @ digits (objectURLs s)
      in s\<lparr>objectURLs := Suc (objectURLs s),
            videoPlayer_src := Some fileURL,
            uploadSection_display := ''none'',
            videoSection_display := ''block''\<rparr>)"

text \<open>
  \<open>uploadFileToServer\<close> runs in three turns of the event loop. The first one runs up to the
  \<open>await\<close> of \<open>fetch\<close>: the request is sent and the rest of the function is left with the
  event loop.
\<close>

definition uploadFileToServer_send :: "editor \<Rightarrow> File \<Rightarrow> editor" where
  "uploadFileToServer_send s file =
     (let s1 = showProgress s;
          s2 = updateProgress s1 (Fin 0) MSG_UPLOADING
      in s2\<lparr>requests := requests s2 @ [PostUpload file],
             pending := pending s2 @ [AwaitUpload file]\<rparr>)"

text \<open>The second turn is the \<open>try\<close> block from the response on, run on the editor as it is
  when the response arrives: \<open>Inl m\<close> is an exception with message \<open>m\<close> (the rejected
  \<open>fetch\<close>, the failure to read the body of a response with a non-success status, or the
  \<open>Error\<close> thrown for such a response), which the \<open>catch\<close> block handles.\<close>

definition uploadFileToServer_try ::
  "editor \<Rightarrow> File \<Rightarrow> upload_result response \<Rightarrow> string + editor" where
  "uploadFileToServer_try s file resp =
     (case resp of
        FetchFailed m \<Rightarrow> Inl m
      | NotOk (Unreadable m) \<Rightarrow> Inl m
      | NotOk (Body detail) \<Rightarrow> Inl (detail_or detail MSG_UPLOAD_FAILED)
      | Ok result \<Rightarrow>
          (let s1 = s\<lparr>currentTaskId := Some (task_id result)\<rparr>;
               s2 = showVideoInfo s1 result;
               s3 = updateProgress s2 (Fin 100) MSG_UPLOAD_DONE
           in Inr (s3\<lparr>pending := pending s3 @ [PlayerTimer file]\<rparr>)))"

definition uploadFileToServer_resume ::
  "editor \<Rightarrow> File \<Rightarrow> upload_result response \<Rightarrow> editor" where
  "uploadFileToServer_resume s file resp =
     (case uploadFileToServer_try s file resp of
        Inl message \<Rightarrow> hideProgress (showError s message)
      | Inr s' \<Rightarrow> s')"

text \<open>The third turn is the callback of \<open>setTimeout\<close>.\<close>

definition uploadFileToServer_timer :: "editor \<Rightarrow> File \<Rightarrow> editor" where
  "uploadFileToServer_timer s file = showVideoPlayer (hideProgress s) file"

text \<open>\<open>handleFileSelect\<close> up to the first \<open>await\<close> inside \<open>uploadFileToServer\<close>; nothing
  follows the call in \<open>handleFileSelect\<close> itself.\<close>

definition handleFileSelect :: "editor \<Rightarrow> File option \<Rightarrow> editor" where
  "handleFileSelect s file =
     (case validateFile s file of
        (False, s') \<Rightarrow> s'
      | (True, s') \<Rightarrow>
          (case file of
             None \<Rightarrow> s'
           | Some f \<Rightarrow> uploadFileToServer_send ((hideError s')\<lparr>currentFile := Some f\<rparr>) f))"

text \<open>\<open>close()\<close> on the \<open>k\<close>-th socket.\<close>

definition ws_close :: "editor \<Rightarrow> nat \<Rightarrow> editor" where
  "ws_close s k =
     (if k < length (sockets s)
      then s\<lparr>sockets := (sockets s)[k := (sockets s ! k)\<lparr>ws_closed := True\<rparr>]\<rparr>
      else s)"

text \<open>The template literal prints a missing task id as \<open>null\<close>.\<close>

definition connectWebSocket :: "editor \<Rightarrow> editor" where
  "connectWebSocket s =
     (let wsUrl = ''ws://localhost:8000/ws/''
                  @ (case currentTaskId s of None \<Rightarrow> ''null'' | Some t \<Rightarrow> t)
      in s\<lparr>sockets := sockets s @ [\<lparr>ws_url = wsUrl, ws_closed = False\<rparr>],
            websocket := Some (length (sockets s))\<rparr>)"

text \<open>\<open>startAnalysis\<close> runs in two turns. \<open>!this.currentTaskId\<close> holds of \<open>null\<close> and of the
  empty string.\<close>

definition startAnalysis_send :: "editor \<Rightarrow> editor" where
  "startAnalysis_send s =
     (case currentTaskId s of
        None \<Rightarrow> showError s MSG_NO_TASK
      | Some t \<Rightarrow>
          if t = [] then showError s MSG_NO_TASK
          else
            (let s1 = connectWebSocket s
             in s1\<lparr>requests := requests s1 @ [PostAnalyze t],
                    pending := pending s1 @ [AwaitAnalyze]\<rparr>))"

definition startAnalysis_try :: "editor \<Rightarrow> unit response \<Rightarrow> string + editor" where
  "startAnalysis_try s resp =
     (case resp of
        FetchFailed m \<Rightarrow> Inl m
      | NotOk (Unreadable m) \<Rightarrow> Inl m
      | NotOk (Body detail) \<Rightarrow> Inl (detail_or detail MSG_ANALYZE_FAILED)
      | Ok result \<Rightarrow> Inr (updateProgress (showProgress s) (Fin 0) MSG_ANALYZING))"

definition startAnalysis_resume :: "editor \<Rightarrow> unit response \<Rightarrow> editor" where
  "startAnalysis_resume s resp =
     (case startAnalysis_try s resp of
        Inl message \<Rightarrow> showError s message
      | Inr s' \<Rightarrow> s')"

definition onAnalysisComplete :: "editor \<Rightarrow> analysis_result \<Rightarrow> editor" where
  "onAnalysisComplete s result =
     (let s1 = hideProgress s;
          s2 = s1\<lparr>videoInfo := videoInfo s1
                  @ [AnalysisResultBlock (detection_count result) (total_frames result)]\<rparr>
      in case websocket s2 of None \<Rightarrow> s2 | Some k \<Rightarrow> ws_close s2 k)"

text \<open>The handler \<open>websocket.onmessage\<close>, on the parsed message.\<close>

definition onmessage :: "editor \<Rightarrow> channel_event \<Rightarrow> editor" where
  "onmessage s data =
     (case data of
        ProgressEvent progress message \<Rightarrow> updateProgress s progress message
      | CompleteEvent result \<Rightarrow> onAnalysisComplete s result
      | ErrorEvent message \<Rightarrow> hideProgress (showError s message)
      | OtherEvent \<Rightarrow> s)"

definition onerror :: "editor \<Rightarrow> editor" where
  "onerror s = showError s MSG_CHANNEL_PROBLEM"

text \<open>Reading \<open>videoPlayer.src\<close>: the empty string while the player has no \<open>src\<close>
  attribute; otherwise the attribute resolved against the address of the page, which for the
  empty attribute is that address and for an object URL (an absolute URL) is the URL
  itself. The code assigns nothing else.\<close>

definition videoPlayer_src_get :: "editor \<Rightarrow> string" where
  "videoPlayer_src_get s =
     (case videoPlayer_src s of
        None \<Rightarrow> []
      | Some v \<Rightarrow> if v = [] then documentURL s else v)"

definition resetUpload :: "editor \<Rightarrow> editor" where
  "resetUpload s =
     (let s1 = (if videoPlayer_src_get s \<noteq> []
                then s\<lparr>revoked := revoked s @ [videoPlayer_src_get s],
                       videoPlayer_src := Some []\<rparr>
                else s);
          s2 = (case websocket s1 of
                  None \<Rightarrow> s1
                | Some k \<Rightarrow> (ws_close s1 k)\<lparr>websocket := None\<rparr>);
          s3 = s2\<lparr>currentFile := None, currentTaskId := None, fileInput_value := []\<rparr>;
          s4 = hideProgress (hideError s3)
      in s4\<lparr>uploadSection_display := ''block'', videoSection_display := ''none''\<rparr>)"

section \<open>The event loop\<close>

text \<open>
  What can happen to the editor: the user selects or drops a file (or cancels the dialog),
  presses one of the two buttons, a response to a request arrives, the timer fires, or a
  socket receives a message or reports a transport error.
\<close>

datatype event =
    FileSelected "File option"
  | UploadResponded File "upload_result response"
  | TimerFired File
  | AnalysisRequested
  | AnalyzeResponded "unit response"
  | MessageReceived nat channel_event
  | TransportError nat
  | ResetRequested

text \<open>A message for the \<open>k\<close>-th socket reaches the handler unless \<open>close()\<close> has been called
  on that socket.\<close>

definition deliver :: "editor \<Rightarrow> nat \<Rightarrow> channel_event \<Rightarrow> editor" where
  "deliver s k data = (if ws_closed (sockets s ! k) then s else onmessage s data)"

definition resume :: "editor \<Rightarrow> continuation \<Rightarrow> editor" where
  "resume s c = s\<lparr>pending := remove1 c (pending s)\<rparr>"

text \<open>One turn of the event loop; \<open>None\<close> when the event cannot happen in that state (a
  response nobody waits for, a socket that does not exist).\<close>

definition step :: "editor \<Rightarrow> event \<Rightarrow> editor option" where
  "step s e =
     (case e of
        FileSelected file \<Rightarrow> Some (handleFileSelect s file)
      | UploadResponded file resp \<Rightarrow>
          if AwaitUpload file \<in> set (pending s)
          then Some (uploadFileToServer_resume (resume s (AwaitUpload file)) file resp)
          else None
      | TimerFired file \<Rightarrow>
          if PlayerTimer file \<in> set (pending s)
          then Some (uploadFileToServer_timer (resume s (PlayerTimer file)) file)
          else None
      | AnalysisRequested \<Rightarrow> Some (startAnalysis_send s)
      | AnalyzeResponded resp \<Rightarrow>
          if AwaitAnalyze \<in> set (pending s)
          then Some (startAnalysis_resume (resume s AwaitAnalyze) resp)
          else None
      | MessageReceived k data \<Rightarrow>
          if k < length (sockets s) then Some (deliver s k data) else None
      | TransportError k \<Rightarrow>
          if k < length (sockets s) then Some (onerror s) else None
      | ResetRequested \<Rightarrow> Some (resetUpload s))"

fun run :: "editor \<Rightarrow> event list \<Rightarrow> editor option" where
  "run s [] = Some s"
| "run s (e # es) = (case step s e of None \<Rightarrow> None | Some s' \<Rightarrow> run s' es)"

text \<open>The states the editor can be in: those some sequence of events leads to from the
  constructor, on a page of any address (an address is not empty, and the page is not
  itself served from an object URL).\<close>

inductive reachable :: "editor \<Rightarrow> bool" where
  initial: "url \<noteq> [] \<Longrightarrow> \<not> startsWith url ''blob:'' \<Longrightarrow>
            reachable (new_FogifyEditor\<lparr>documentURL := url\<rparr>)"
| after: "reachable s \<Longrightarrow> step s e = Some s' \<Longrightarrow> reachable s'"

section \<open>Example inputs\<close>

text \<open>The values the closed statements below are evaluated at.\<close>

definition example_file :: File where
  "example_file = \<lparr>file_name = ''clip.mp4'', file_size = 10485760, file_type = ''video/mp4''\<rparr>"

definition second_file :: File where
  "second_file = \<lparr>file_name = ''take2.WEBM'', file_size = 2048, file_type = ''video/webm''\<rparr>"

definition big_file :: File where
  "big_file = \<lparr>file_name = ''big.mp4'', file_size = 524288001, file_type = ''video/mp4''\<rparr>"

definition text_file :: File where
  "text_file = \<lparr>file_name = ''notes.txt'', file_size = 10, file_type = ''text/plain''\<rparr>"

definition mislabelled_file :: File where
  "mislabelled_file =
     \<lparr>file_name = ''clip.mp4'', file_size = 10, file_type = ''application/octet-stream''\<rparr>"

text \<open>A file whose name has no extension at all.\<close>

definition bare_file :: File where
  "bare_file = \<lparr>file_name = ''mp4'', file_size = 1, file_type = ''video/mp4''\<rparr>"

definition example_result :: upload_result where
  "example_result =
     \<lparr>task_id = ''abc123'', filename = ''clip.mp4'',
      metadata = \<lparr>duration = Fin 125, width = 1920, height = 1080, frame_count = 3000,
                  fps = Fin 24, md_file_size = 10485760\<rparr>\<rparr>"

definition second_result :: upload_result where
  "second_result =
     \<lparr>task_id = ''def456'', filename = ''take2.WEBM'',
      metadata = \<lparr>duration = Fin 125, width = 1920, height = 1080, frame_count = 3000,
                  fps = Fin 24, md_file_size = 10485760\<rparr>\<rparr>"

definition example_summary :: analysis_result where
  "example_summary = \<lparr>detection_count = 3, total_frames = 3000\<rparr>"

text \<open>A file is selected, its upload is accepted, and the analysis is requested.\<close>

definition analyzing_events :: "event list" where
  "analyzing_events =
     [FileSelected (Some example_file), UploadResponded example_file (Ok example_result),
      AnalysisRequested]"

text \<open>The editor these three events lead to.\<close>

definition analyzing_state :: editor where
  "analyzing_state =
     \<lparr> currentFile = Some example_file, currentTaskId = Some ''abc123'', websocket = Some 0,
       fileInput_value = [], uploadProgress_display = ''block'',
       progressFill_width = ''100%'', progressText_textContent = MSG_UPLOAD_DONE,
       errorMessage_textContent = [], errorMessage_display = ''none'',
       uploadSection_display = [], videoSection_display = [], videoPlayer_src = None,
       documentURL = example_page,
       videoInfo = [VideoInfoBlock ''clip.mp4'' ''2:05'' 1920 1080 3000 (Fin 24) ''10 MB''],
       sockets = [\<lparr>ws_url = ''ws://localhost:8000/ws/abc123'', ws_closed = False\<rparr>],
       requests = [PostUpload example_file, PostAnalyze ''abc123''],
       pending = [PlayerTimer example_file, AwaitAnalyze],
       objectURLs = 0, revoked = [] \<rparr>"

text \<open>The socket reference of the editor points at a socket that exists.\<close>

definition ws_ok :: "editor \<Rightarrow> bool" where
  "ws_ok s = (case websocket s of None \<Rightarrow> True | Some k \<Rightarrow> k < length (sockets s))"

text \<open>The page has an address that is not an object URL, and the \<open>src\<close> attribute of the
  player, when it has one, is empty or an object URL.\<close>

definition src_ok :: "editor \<Rightarrow> bool" where
  "src_ok s =
     (documentURL s \<noteq> [] \<and> \<not> startsWith (documentURL s) ''blob:''
      \<and> (case videoPlayer_src s of
            None \<Rightarrow> True
          | Some v \<Rightarrow> v = [] \<or> startsWith v ''blob:''))"

text \<open>A file that has no extension and is not a video.\<close>

definition bare_text_file :: File where
  "bare_text_file = \<lparr>file_name = ''mp4'', file_size = 1, file_type = ''text/plain''\<rparr>"

text \<open>After the three events the timer fires: the player shows the file.\<close>

definition playing_events :: "event list" where
  "playing_events = analyzing_events @ [TimerFired example_file]"

definition playing_state :: editor where
  "playing_state =
     analyzing_state\<lparr>uploadProgress_display := ''none'', videoPlayer_src := Some ''blob:0'',
       uploadSection_display := ''none'', videoSection_display := ''block'',
       pending := [AwaitAnalyze], objectURLs := 1\<rparr>"

declare digits.simps [simp del]
declare floor_log.simps [simp del]

section \<open>Evaluation lemmas\<close>

text \<open>Facts about the helper functions and the example inputs, and the events that lead
  to \<open>analyzing_state\<close>.\<close>

lemma Math_round_Fin: "Math_round (Fin q) = Fin (of_int (round q))"
  by (simp add: Math_round_def round_def)

lemma number_toString_of_int: "number_toString (Fin (of_int n)) = int_toString n"
  by (simp add: number_toString_def)

lemma formatDuration_example: "formatDuration (Fin 125) = ''2:05''"
  by code_simp

lemma toFixed_example: "toFixed 2 10 = ''10.00''"
  by code_simp

lemma parseFloat_example: "parseFloat_toString ''10.00'' = ''10''"
  by code_simp

lemma formatFileSize_example: "formatFileSize 10485760 = ''10 MB''"
  by (simp add: formatFileSize_def sizes_def toFixed_example parseFloat_example floor_log.simps)

lemma max_size_in_MB: "number_toString (Fin (of_nat maxFileSize / (1024 * 1024))) = ''500''"
  by (simp add: number_toString_def maxFileSize_def int_toString_def digits.simps digit_def)

lemma formats_upper: "toUpperCase (join '', '' supportedFormats) = ''MP4, MOV, AVI, MKV, WEBM''"
  by code_simp

lemma messages_nonempty [simp]:
  "MSG_UPLOADING \<noteq> []" "MSG_UPLOAD_DONE \<noteq> []" "MSG_ANALYZING \<noteq> []" "MSG_UPLOAD_FAILED \<noteq> []"
  by (simp_all add: MSG_UPLOADING_def MSG_UPLOAD_DONE_def MSG_ANALYZING_def MSG_UPLOAD_FAILED_def)

lemma toLowerCase_examples:
  "toLowerCase ''mp4'' = ''mp4''"
  "toLowerCase ''WEBM'' = ''webm''"
  "toLowerCase ''txt'' = ''txt''"
  by (code_simp, code_simp, code_simp)

lemma fileExtension_example_file: "fileExtension example_file = ''mp4''"
  by (simp add: fileExtension_def example_file_def toLowerCase_examples)

lemma fileExtension_second_file: "fileExtension second_file = ''webm''"
  by (simp add: fileExtension_def second_file_def toLowerCase_examples)

lemma fileExtension_big_file: "fileExtension big_file = ''mp4''"
  by (simp add: fileExtension_def big_file_def toLowerCase_examples)

lemma fileExtension_text_file: "fileExtension text_file = ''txt''"
  by (simp add: fileExtension_def text_file_def toLowerCase_examples)

lemma fileExtension_mislabelled_file: "fileExtension mislabelled_file = ''mp4''"
  by (simp add: fileExtension_def mislabelled_file_def toLowerCase_examples)

lemma fileExtension_bare_file: "fileExtension bare_file = ''mp4''"
  by (simp add: fileExtension_def bare_file_def toLowerCase_examples)

lemmas fileExtension_examples =
  fileExtension_example_file fileExtension_second_file fileExtension_big_file
  fileExtension_text_file fileExtension_mislabelled_file fileExtension_bare_file

lemma validateFile_accepts:
  "validateFile s (Some example_file) = (True, s)"
  "validateFile s (Some second_file) = (True, s)"
  "validateFile s (Some bare_file) = (True, s)"
  by (simp_all add: validateFile_def fileExtension_examples supportedFormats_def,
      simp_all add: example_file_def second_file_def bare_file_def startsWith_def maxFileSize_def)

lemmas editor_ops =
  step_def handleFileSelect_def uploadFileToServer_send_def resume_def
  uploadFileToServer_resume_def uploadFileToServer_try_def uploadFileToServer_timer_def
  showVideoPlayer_def startAnalysis_send_def startAnalysis_resume_def startAnalysis_try_def
  connectWebSocket_def showVideoInfo_def updateProgress_def showProgress_def hideProgress_def
  hideError_def showError_def deliver_def onmessage_def onAnalysisComplete_def ws_close_def
  onerror_def resetUpload_def detail_or_def Math_round_Fin number_toString_def int_toString_def
  Let_def

lemmas example_eval =
  validateFile_accepts formatDuration_example formatFileSize_example
  example_result_def second_result_def example_summary_def digits.simps digit_def

lemma run_append: "run s (es @ es') = (case run s es of None \<Rightarrow> None | Some s' \<Rightarrow> run s' es')"
  by (induction es arbitrary: s) (auto split: option.splits)

lemma run_reachable: "reachable s \<Longrightarrow> run s es = Some s' \<Longrightarrow> reachable s'"
proof (induction es arbitrary: s)
  case Nil
  then show ?case by simp
next
  case (Cons e es)
  then show ?case
    by (auto split: option.splits intro: reachable.after)
qed


lemma run_analyzing: "run new_FogifyEditor analyzing_events = Some analyzing_state"
  by (simp add: analyzing_events_def analyzing_state_def new_FogifyEditor_def editor_ops example_eval)

lemma reachable_new: "reachable new_FogifyEditor"
  using reachable.initial [of example_page]
  by (simp add: example_page_def startsWith_def new_FogifyEditor_def)

lemma reachable_analyzing: "reachable analyzing_state"
  using run_reachable [OF reachable_new run_analyzing] .

lemma run_snoc:
  "run s es = Some s' \<Longrightarrow> run s (es @ [e]) = step s' e"
  by (simp add: run_append split: option.splits)

lemma run_snoc2:
  "run s es = Some s' \<Longrightarrow> run s (es @ [e1, e2]) = (case step s' e1 of None \<Rightarrow> None | Some s'' \<Rightarrow> step s'' e2)"
  by (simp add: run_append split: option.splits)

lemma run_snoc4:
  "run s es = Some s' \<Longrightarrow>
   run s (es @ [e1, e2, e3]) =
     (case step s' e1 of None \<Rightarrow> None
      | Some s1 \<Rightarrow> (case step s1 e2 of None \<Rightarrow> None | Some s2 \<Rightarrow> step s2 e3))"
  by (simp add: run_append split: option.splits)

lemma run_playing: "run new_FogifyEditor playing_events = Some playing_state"
  by (simp add: playing_events_def run_snoc [OF run_analyzing] step_def resume_def
      uploadFileToServer_timer_def showVideoPlayer_def hideProgress_def digits.simps digit_def
      analyzing_state_def playing_state_def)

lemma reachable_playing: "reachable playing_state"
  using run_reachable [OF reachable_new run_playing] .

section \<open>Facts about the operations\<close>

lemma handleFileSelect_rejected:
  "fst (validateFile s file) = False \<Longrightarrow> handleFileSelect s file = snd (validateFile s file)"
  by (cases "validateFile s file") (auto simp add: handleFileSelect_def)

lemma handleFileSelect_accepted:
  "fst (validateFile s (Some f)) = True \<Longrightarrow>
   handleFileSelect s (Some f) = uploadFileToServer_send ((hideError s)\<lparr>currentFile := Some f\<rparr>) f"
  by (cases "validateFile s (Some f)")
     (auto simp add: handleFileSelect_def validateFile_def split: if_splits)

lemma validateFile_rejects:
  "fst (validateFile s file) = False \<Longrightarrow> \<exists>m. snd (validateFile s file) = showError s m"
  by (auto simp add: validateFile_def split: option.splits if_splits)

lemma max_size_in_MB': "number_toString (Fin (of_nat maxFileSize / 1048576)) = ''500''"
  using max_size_in_MB by simp

text \<open>A \<open>complete\<close> event closes the socket the editor refers to; a message that arrives on
  that socket afterwards is dropped.\<close>

lemma complete_event_closes_channel:
  assumes "websocket s = Some k" and "k < length (sockets s)"
  shows "ws_closed (sockets (onmessage s (CompleteEvent result)) ! k)"
    and "deliver (onmessage s (CompleteEvent result)) k data = onmessage s (CompleteEvent result)"
  using assms by (simp_all add: deliver_def onmessage_def onAnalysisComplete_def ws_close_def hideProgress_def Let_def)

text \<open>In every state the editor can be in, its socket reference points at a socket it has
  created.\<close>

lemma step_ws_ok: "ws_ok s \<Longrightarrow> step s e = Some s' \<Longrightarrow> ws_ok s'"
  by (cases e)
     (auto simp add: ws_ok_def editor_ops validateFile_def
        split: option.splits if_splits response.splits error_body.splits channel_event.splits
          prod.splits sum.splits)

lemma reachable_ws_ok: "reachable s \<Longrightarrow> ws_ok s"
proof (induction rule: reachable.induct)
  case (initial url)
  show ?case by (simp add: ws_ok_def new_FogifyEditor_def)
next
  case (after s e s')
  from after.IH after.hyps(2) show ?case by (rule step_ws_ok)
qed

lemma reachable_websocket_valid:
  "reachable s \<Longrightarrow> websocket s = Some k \<Longrightarrow> k < length (sockets s)"
  using reachable_ws_ok [of s] by (simp add: ws_ok_def)

lemma fileExtension_bare_text_file: "fileExtension bare_text_file = ''mp4''"
  by (simp add: fileExtension_def bare_text_file_def toLowerCase_examples)

text \<open>The order of the checks, on what \<open>handleFileSelect\<close> writes and sends: the first check
  that fails, with \<open>fileExtension\<close> as the code computes it, decides the message.\<close>

lemma validation_order:
  "errorMessage_textContent (handleFileSelect s None) = MSG_NO_FILE
   \<and> errorMessage_display (handleFileSelect s None) = ''block''
   \<and> requests (handleFileSelect s None) = requests s
   \<and> (maxFileSize < file_size f \<longrightarrow>
        errorMessage_textContent (handleFileSelect s (Some f)) = MSG_TOO_LARGE ''500''
        \<and> errorMessage_display (handleFileSelect s (Some f)) = ''block''
        \<and> requests (handleFileSelect s (Some f)) = requests s)
   \<and> (file_size f \<le> maxFileSize \<and> fileExtension f \<notin> set supportedFormats \<longrightarrow>
        errorMessage_textContent (handleFileSelect s (Some f))
          = MSG_BAD_FORMAT ''MP4, MOV, AVI, MKV, WEBM''
        \<and> errorMessage_display (handleFileSelect s (Some f)) = ''block''
        \<and> requests (handleFileSelect s (Some f)) = requests s)
   \<and> (file_size f \<le> maxFileSize \<and> fileExtension f \<in> set supportedFormats
        \<and> \<not> startsWith (file_type f) ''video/'' \<longrightarrow>
        errorMessage_textContent (handleFileSelect s (Some f)) = MSG_NOT_VIDEO
        \<and> errorMessage_display (handleFileSelect s (Some f)) = ''block''
        \<and> requests (handleFileSelect s (Some f)) = requests s)
   \<and> (file_size f \<le> maxFileSize \<and> fileExtension f \<in> set supportedFormats
        \<and> startsWith (file_type f) ''video/'' \<longrightarrow>
        errorMessage_display (handleFileSelect s (Some f)) = ''none''
        \<and> requests (handleFileSelect s (Some f)) = requests s @ [PostUpload f])
   \<and> distinct [MSG_NO_FILE, MSG_TOO_LARGE ''500'',
                 MSG_BAD_FORMAT ''MP4, MOV, AVI, MKV, WEBM'', MSG_NOT_VIDEO]"
proof (intro conjI impI)
  have none: "validateFile s None = (False, showError s MSG_NO_FILE)"
    by (simp add: validateFile_def)
  then have "handleFileSelect s None = showError s MSG_NO_FILE"
    using handleFileSelect_rejected [of s None] by simp
  then show "errorMessage_textContent (handleFileSelect s None) = MSG_NO_FILE"
    and "errorMessage_display (handleFileSelect s None) = ''block''"
    and "requests (handleFileSelect s None) = requests s"
    by (simp_all add: showError_def)
next
  assume "maxFileSize < file_size f"
  then have "validateFile s (Some f) = (False, showError s (MSG_TOO_LARGE ''500''))"
    by (simp add: validateFile_def max_size_in_MB')
  then have "handleFileSelect s (Some f) = showError s (MSG_TOO_LARGE ''500'')"
    using handleFileSelect_rejected [of s "Some f"] by simp
  then show "errorMessage_textContent (handleFileSelect s (Some f)) = MSG_TOO_LARGE ''500''"
    and "errorMessage_display (handleFileSelect s (Some f)) = ''block''"
    and "requests (handleFileSelect s (Some f)) = requests s"
    by (simp_all add: showError_def)
next
  assume "file_size f \<le> maxFileSize \<and> fileExtension f \<notin> set supportedFormats"
  then have "validateFile s (Some f)
      = (False, showError s (MSG_BAD_FORMAT ''MP4, MOV, AVI, MKV, WEBM''))"
    by (simp add: validateFile_def formats_upper)
  then have "handleFileSelect s (Some f)
      = showError s (MSG_BAD_FORMAT ''MP4, MOV, AVI, MKV, WEBM'')"
    using handleFileSelect_rejected [of s "Some f"] by simp
  then show "errorMessage_textContent (handleFileSelect s (Some f))
      = MSG_BAD_FORMAT ''MP4, MOV, AVI, MKV, WEBM''"
    and "errorMessage_display (handleFileSelect s (Some f)) = ''block''"
    and "requests (handleFileSelect s (Some f)) = requests s"
    by (simp_all add: showError_def)
next
  assume "file_size f \<le> maxFileSize \<and> fileExtension f \<in> set supportedFormats
        \<and> \<not> startsWith (file_type f) ''video/''"
  then have "validateFile s (Some f) = (False, showError s MSG_NOT_VIDEO)"
    by (simp add: validateFile_def)
  then have "handleFileSelect s (Some f) = showError s MSG_NOT_VIDEO"
    using handleFileSelect_rejected [of s "Some f"] by simp
  then show "errorMessage_textContent (handleFileSelect s (Some f)) = MSG_NOT_VIDEO"
    and "errorMessage_display (handleFileSelect s (Some f)) = ''block''"
    and "requests (handleFileSelect s (Some f)) = requests s"
    by (simp_all add: showError_def)
next
  assume "file_size f \<le> maxFileSize \<and> fileExtension f \<in> set supportedFormats
        \<and> startsWith (file_type f) ''video/''"
  then have "validateFile s (Some f) = (True, s)"
    by (simp add: validateFile_def)
  then have sent: "handleFileSelect s (Some f)
      = uploadFileToServer_send ((hideError s)\<lparr>currentFile := Some f\<rparr>) f"
    using handleFileSelect_accepted [of s f] by simp
  show "errorMessage_display (handleFileSelect s (Some f)) = ''none''"
    by (simp add: sent uploadFileToServer_send_def updateProgress_def showProgress_def
        hideError_def Let_def)
  show "requests (handleFileSelect s (Some f)) = requests s @ [PostUpload f]"
    by (simp add: sent uploadFileToServer_send_def updateProgress_def showProgress_def
        hideError_def Let_def)
next
  show "distinct [MSG_NO_FILE, MSG_TOO_LARGE ''500'',
                 MSG_BAD_FORMAT ''MP4, MOV, AVI, MKV, WEBM'', MSG_NOT_VIDEO]"
    by (simp add: MSG_NO_FILE_def MSG_TOO_LARGE_def MSG_BAD_FORMAT_def MSG_NOT_VIDEO_def)
qed

text \<open>In every state the editor can be in, the page has an address that is not an object
  URL and the player's \<open>src\<close> is absent, empty or an object URL.\<close>

lemma step_src_ok: "src_ok s \<Longrightarrow> step s e = Some s' \<Longrightarrow> src_ok s'"
  by (cases e)
     (auto simp add: src_ok_def editor_ops validateFile_def videoPlayer_src_get_def
        startsWith_def
        split: option.splits if_splits response.splits error_body.splits channel_event.splits
          prod.splits sum.splits)

lemma reachable_src_ok: "reachable s \<Longrightarrow> src_ok s"
proof (induction rule: reachable.induct)
  case (initial url)
  then show ?case by (simp add: src_ok_def new_FogifyEditor_def)
next
  case (after s e s')
  from after.IH after.hyps(2) show ?case by (rule step_src_ok)
qed

lemma resetUpload_revoked:
  "revoked (resetUpload s)
     = revoked s @ (if videoPlayer_src_get s \<noteq> [] then [videoPlayer_src_get s] else [])"
  by (simp add: resetUpload_def hideProgress_def hideError_def ws_close_def Let_def
      split: option.splits)

lemma resetUpload_src:
  "videoPlayer_src (resetUpload s)
     = (if videoPlayer_src_get s \<noteq> [] then Some [] else videoPlayer_src s)"
  "documentURL (resetUpload s) = documentURL s"
  by (simp_all add: resetUpload_def hideProgress_def hideError_def ws_close_def Let_def
      split: option.splits)

text \<open>Once the player holds no object URL, no number of resets passes the URL \<open>u\<close> to
  \<open>URL.revokeObjectURL\<close>, as long as \<open>u\<close> is not the address of the page.\<close>

lemma resets_after_release:
  assumes "videoPlayer_src t = None \<or> videoPlayer_src t = Some []"
    and "u \<noteq> documentURL t" and "u \<noteq> []"
  shows "(videoPlayer_src ((resetUpload ^^ n) t) = None
          \<or> videoPlayer_src ((resetUpload ^^ n) t) = Some [])
     \<and> documentURL ((resetUpload ^^ n) t) = documentURL t
     \<and> count_list (revoked ((resetUpload ^^ n) t)) u = count_list (revoked t) u"
proof (induction n)
  case 0
  show ?case using assms(1) by simp
next
  case (Suc n)
  let ?t = "(resetUpload ^^ n) t"
  from Suc have src: "videoPlayer_src ?t = None \<or> videoPlayer_src ?t = Some []"
    and doc: "documentURL ?t = documentURL t"
    and cnt: "count_list (revoked ?t) u = count_list (revoked t) u"
    by simp_all
  from src doc assms(2,3) have "videoPlayer_src_get ?t \<noteq> u"
    by (auto simp add: videoPlayer_src_get_def)
  then have "count_list (revoked (resetUpload ?t)) u = count_list (revoked ?t) u"
    by (simp add: resetUpload_revoked)
  moreover from src have "videoPlayer_src (resetUpload ?t) = None
      \<or> videoPlayer_src (resetUpload ?t) = Some []"
    by (auto simp add: resetUpload_src)
  ultimately show ?case
    using doc cnt by (simp add: resetUpload_src)
qed

lemma resetUpload_twice_fields:
  "(resetUpload (resetUpload s))\<lparr>revoked := []\<rparr> = (resetUpload s)\<lparr>revoked := []\<rparr>"
  by (simp add: resetUpload_def hideProgress_def hideError_def ws_close_def Let_def
      videoPlayer_src_get_def split: option.splits)

section \<open>C1: display of a progress event\<close>

text \<open>
  C1, as the code has it. For every progress event the handler writes the event's progress
  value rounded to the nearest integer (a tie going to the larger one), followed by
  \<open>%\<close>, as the width of the progress bar; the text element gets the event's message
  when that is not empty and the same percent otherwise. The value is not clamped. A
  progress value that is not a number is written as \<open>NaN%\<close>. Nothing else in the editor
  changes.
\<close>

theorem progress_event_rounds_without_clamp:
  "onmessage s (ProgressEvent (Fin q) message) =
     s\<lparr>progressFill_width := int_toString (round q) @ ''%'',
       progressText_textContent :=
         (if message \<noteq> [] then message else int_toString (round q) @ ''%'')\<rparr>
   \<and> \<bar>of_int (round q) - q\<bar> \<le> 1 / 2
   \<and> onmessage s (ProgressEvent NaN message) =
     s\<lparr>progressFill_width := ''NaN%'',
       progressText_textContent := (if message \<noteq> [] then message else ''NaN%'')\<rparr>"
proof (intro conjI)
  show "onmessage s (ProgressEvent (Fin q) message) =
     s\<lparr>progressFill_width := int_toString (round q) @ ''%'',
       progressText_textContent :=
         (if message \<noteq> [] then message else int_toString (round q) @ ''%'')\<rparr>"
    by (simp add: onmessage_def updateProgress_def Math_round_Fin number_toString_def)
  show "\<bar>of_int (round q) - q\<bar> \<le> 1 / 2"
    by (rule of_int_round_abs_le)
  show "onmessage s (ProgressEvent NaN message) =
     s\<lparr>progressFill_width := ''NaN%'',
       progressText_textContent := (if message \<noteq> [] then message else ''NaN%'')\<rparr>"
    by (simp add: onmessage_def updateProgress_def Math_round_def number_toString_def)
qed

text \<open>
  C1 as stated fails: with the analysis running, a progress event of \<open>-5\<close> with no message
  writes \<open>-5%\<close> to the bar and the text, not \<open>0%\<close>, and one of \<open>143\<close> writes \<open>143%\<close>, not
  \<open>100%\<close>.
\<close>

theorem progress_outside_range_counterexample:
  "map_option progressFill_width
     (run new_FogifyEditor (analyzing_events @ [MessageReceived 0 (ProgressEvent (Fin (- 5)) [])]))
     = Some ''-5%''
   \<and> map_option progressText_textContent
     (run new_FogifyEditor (analyzing_events @ [MessageReceived 0 (ProgressEvent (Fin (- 5)) [])]))
     = Some ''-5%''
   \<and> map_option progressFill_width
     (run new_FogifyEditor (analyzing_events @ [MessageReceived 0 (ProgressEvent (Fin 143) [])]))
     = Some ''143%''
   \<and> map_option progressText_textContent
     (run new_FogifyEditor (analyzing_events @ [MessageReceived 0 (ProgressEvent (Fin 143) [])]))
     = Some ''143%''"
  by (simp add: run_snoc [OF run_analyzing] step_def deliver_def onmessage_def updateProgress_def
      Math_round_Fin number_toString_def int_toString_def digits.simps digit_def analyzing_state_def)

section \<open>C2: terminal events of the channel\<close>

text \<open>
  C2. The claim says that an \<open>error\<close> event closes the channel, as a \<open>complete\<close> event
  does, so that at most one terminal event is handled. On the code, with the analysis
  running, an \<open>error\<close> event leaves the socket open; a \<open>complete\<close> event that follows on the
  same socket is handled too: the error message stays displayed and the analysis result is
  appended to the video information.
\<close>

theorem error_event_leaves_channel_open:
  "map_option (\<lambda>s. map ws_closed (sockets s))
     (run new_FogifyEditor (analyzing_events @ [MessageReceived 0 (ErrorEvent ''analysis failed'')]))
     = Some [False]
   \<and> map_option errorMessage_textContent
     (run new_FogifyEditor
        (analyzing_events @ [MessageReceived 0 (ErrorEvent ''analysis failed''),
                             MessageReceived 0 (CompleteEvent example_summary)]))
     = Some ''analysis failed''
   \<and> map_option videoInfo
     (run new_FogifyEditor
        (analyzing_events @ [MessageReceived 0 (ErrorEvent ''analysis failed''),
                             MessageReceived 0 (CompleteEvent example_summary)]))
     = Some [VideoInfoBlock ''clip.mp4'' ''2:05'' 1920 1080 3000 (Fin 24) ''10 MB'',
             AnalysisResultBlock 3 3000]"
  by (simp add: run_snoc [OF run_analyzing] run_snoc2 [OF run_analyzing] step_def deliver_def onmessage_def
      onAnalysisComplete_def ws_close_def showError_def hideProgress_def
      analyzing_state_def example_summary_def)

section \<open>C3: order of the validation rules\<close>

text \<open>
  C3. The claim says that the rules are applied in the order presence, size, extension,
  media type, and that the first rule violated is the one the message names. On the code
  the file named \<open>mp4\<close> with media type \<open>text/plain\<close> has no extension, so the extension
  rule is the first one it violates; the code takes the whole name for the extension, lets
  the rule pass, and shows the message of the media type rule. (A file named
  \<open>notes.txt\<close> of the same media type gets the message of the extension rule.)
\<close>

theorem dotless_name_passes_extension_rule:
  "CHR ''.'' \<notin> set (file_name bare_text_file)
   \<and> errorMessage_textContent (handleFileSelect new_FogifyEditor (Some bare_text_file))
     = MSG_NOT_VIDEO
   \<and> errorMessage_display (handleFileSelect new_FogifyEditor (Some bare_text_file)) = ''block''
   \<and> MSG_NOT_VIDEO \<noteq> MSG_BAD_FORMAT ''MP4, MOV, AVI, MKV, WEBM''
   \<and> errorMessage_textContent (handleFileSelect new_FogifyEditor (Some text_file))
     = MSG_BAD_FORMAT ''MP4, MOV, AVI, MKV, WEBM''"
proof (intro conjI)
  show "CHR ''.'' \<notin> set (file_name bare_text_file)"
    by (simp add: bare_text_file_def)
  have bare: "validateFile new_FogifyEditor (Some bare_text_file)
      = (False, showError new_FogifyEditor MSG_NOT_VIDEO)"
    by (simp add: validateFile_def fileExtension_bare_text_file supportedFormats_def)
       (simp add: bare_text_file_def maxFileSize_def startsWith_def)
  then have "handleFileSelect new_FogifyEditor (Some bare_text_file)
      = showError new_FogifyEditor MSG_NOT_VIDEO"
    using handleFileSelect_rejected [of new_FogifyEditor "Some bare_text_file"] by simp
  then show "errorMessage_textContent
      (handleFileSelect new_FogifyEditor (Some bare_text_file)) = MSG_NOT_VIDEO"
    and "errorMessage_display (handleFileSelect new_FogifyEditor (Some bare_text_file)) = ''block''"
    by (simp_all add: showError_def)
  show "MSG_NOT_VIDEO \<noteq> MSG_BAD_FORMAT ''MP4, MOV, AVI, MKV, WEBM''"
    by (simp add: MSG_NOT_VIDEO_def MSG_BAD_FORMAT_def)
  have small: "file_size text_file \<le> maxFileSize"
    by (simp add: text_file_def maxFileSize_def)
  have other: "fileExtension text_file \<notin> set supportedFormats"
    by (simp add: fileExtension_text_file supportedFormats_def)
  show "errorMessage_textContent (handleFileSelect new_FogifyEditor (Some text_file))
      = MSG_BAD_FORMAT ''MP4, MOV, AVI, MKV, WEBM''"
    using validation_order [of new_FogifyEditor text_file] small other by blast
qed

section \<open>C4: files without an extension\<close>

text \<open>
  C4. The claim says that a file whose extension is not a supported format, a file with no
  extension at all included, is rejected. On the code the file named \<open>mp4\<close>, which has no
  extension, passes the validation (its whole name is taken for the extension) and is
  uploaded.
\<close>

theorem extensionless_file_is_accepted:
  "validateFile new_FogifyEditor (Some bare_file) = (True, new_FogifyEditor)
   \<and> requests (handleFileSelect new_FogifyEditor (Some bare_file)) = [PostUpload bare_file]
   \<and> split_on CHR ''.'' (file_name bare_file) = [''mp4'']"
  by (simp add: validateFile_accepts handleFileSelect_def uploadFileToServer_send_def
      updateProgress_def showProgress_def hideError_def new_FogifyEditor_def Let_def)
     (simp add: bare_file_def)

section \<open>C5: a failed upload\<close>



section \<open>C6: a new upload while a task is live\<close>

text \<open>
  C6, as the code has it. The editor holds its selected file and its task id in one field
  each, so at most one of each at any time. Selecting a file that passes the validation
  replaces the selected file and sends one upload request; it leaves the task id, the
  socket reference and every socket as they were. Only the response of an accepted upload
  replaces the task id, by the new one; a failed upload leaves it. No response closes a
  socket.
\<close>

theorem new_upload_keeps_task_and_channel:
  assumes "fst (validateFile s (Some f)) = True"
  shows "card {g. currentFile s = Some g} \<le> 1
     \<and> card {t. currentTaskId s = Some t} \<le> 1
     \<and> currentFile (handleFileSelect s (Some f)) = Some f
     \<and> requests (handleFileSelect s (Some f)) = requests s @ [PostUpload f]
     \<and> currentTaskId (handleFileSelect s (Some f)) = currentTaskId s
     \<and> websocket (handleFileSelect s (Some f)) = websocket s
     \<and> sockets (handleFileSelect s (Some f)) = sockets s
     \<and> currentTaskId (uploadFileToServer_resume s' f (Ok r)) = Some (task_id r)
     \<and> currentTaskId (uploadFileToServer_resume s' f (NotOk body)) = currentTaskId s'
     \<and> currentTaskId (uploadFileToServer_resume s' f (FetchFailed m)) = currentTaskId s'
     \<and> websocket (uploadFileToServer_resume s' f resp) = websocket s'
     \<and> sockets (uploadFileToServer_resume s' f resp) = sockets s'"
proof (intro conjI)
  show "card {g. currentFile s = Some g} \<le> 1"
  proof (cases "currentFile s")
    case None
    then show ?thesis by simp
  next
    case (Some a)
    then have "{g. currentFile s = Some g} = {a}" by auto
    then show ?thesis by simp
  qed
  show "card {t. currentTaskId s = Some t} \<le> 1"
  proof (cases "currentTaskId s")
    case None
    then show ?thesis by simp
  next
    case (Some a)
    then have "{t. currentTaskId s = Some t} = {a}" by auto
    then show ?thesis by simp
  qed
  note sel = handleFileSelect_accepted [OF assms]
  show "currentFile (handleFileSelect s (Some f)) = Some f"
    by (simp add: sel uploadFileToServer_send_def updateProgress_def showProgress_def
        hideError_def Let_def)
  show "requests (handleFileSelect s (Some f)) = requests s @ [PostUpload f]"
    by (simp add: sel uploadFileToServer_send_def updateProgress_def showProgress_def
        hideError_def Let_def)
  show "currentTaskId (handleFileSelect s (Some f)) = currentTaskId s"
    by (simp add: sel uploadFileToServer_send_def updateProgress_def showProgress_def
        hideError_def Let_def)
  show "websocket (handleFileSelect s (Some f)) = websocket s"
    by (simp add: sel uploadFileToServer_send_def updateProgress_def showProgress_def
        hideError_def Let_def)
  show "sockets (handleFileSelect s (Some f)) = sockets s"
    by (simp add: sel uploadFileToServer_send_def updateProgress_def showProgress_def
        hideError_def Let_def)
  show "currentTaskId (uploadFileToServer_resume s' f (Ok r)) = Some (task_id r)"
    by (simp add: uploadFileToServer_resume_def uploadFileToServer_try_def showVideoInfo_def
        updateProgress_def Let_def)
  show "currentTaskId (uploadFileToServer_resume s' f (NotOk body)) = currentTaskId s'"
    by (cases body)
       (simp_all add: uploadFileToServer_resume_def uploadFileToServer_try_def hideProgress_def
          showError_def)
  show "currentTaskId (uploadFileToServer_resume s' f (FetchFailed m)) = currentTaskId s'"
    by (simp add: uploadFileToServer_resume_def uploadFileToServer_try_def hideProgress_def
        showError_def)
  show "websocket (uploadFileToServer_resume s' f resp) = websocket s'"
    by (cases resp)
       (simp_all add: uploadFileToServer_resume_def uploadFileToServer_try_def
          showVideoInfo_def updateProgress_def hideProgress_def showError_def Let_def
          split: error_body.splits)
  show "sockets (uploadFileToServer_resume s' f resp) = sockets s'"
    by (cases resp)
       (simp_all add: uploadFileToServer_resume_def uploadFileToServer_try_def
          showVideoInfo_def updateProgress_def hideProgress_def showError_def Let_def
          split: error_body.splits)
qed

theorem new_upload_keeps_task_and_channel_witness:
  "fst (validateFile analyzing_state (Some second_file)) = True
   \<and> currentFile (handleFileSelect analyzing_state (Some second_file)) = Some second_file
   \<and> currentTaskId (handleFileSelect analyzing_state (Some second_file)) = Some ''abc123''
   \<and> websocket (handleFileSelect analyzing_state (Some second_file)) = Some 0
   \<and> map ws_closed (sockets (handleFileSelect analyzing_state (Some second_file))) = [False]"
proof -
  have accepted: "fst (validateFile analyzing_state (Some second_file)) = True"
    by (simp add: validateFile_accepts)
  show ?thesis
    using accepted new_upload_keeps_task_and_channel [OF accepted]
    by (simp add: analyzing_state_def)
qed

text \<open>
  C6 as stated fails: with the analysis of the first task running, selecting a second file
  leaves the first task id current and its socket open; when the second upload is accepted
  the task id changes and the editor still refers to the open socket of the first task.
\<close>

theorem new_upload_counterexample:
  "map_option currentTaskId
     (run new_FogifyEditor (analyzing_events @ [FileSelected (Some second_file)]))
     = Some (Some ''abc123'')
   \<and> map_option sockets
     (run new_FogifyEditor (analyzing_events @ [FileSelected (Some second_file)]))
     = Some [\<lparr>ws_url = ''ws://localhost:8000/ws/abc123'', ws_closed = False\<rparr>]
   \<and> map_option currentTaskId
     (run new_FogifyEditor
        (analyzing_events @ [FileSelected (Some second_file),
                             UploadResponded second_file (Ok second_result)]))
     = Some (Some ''def456'')
   \<and> map_option websocket
     (run new_FogifyEditor
        (analyzing_events @ [FileSelected (Some second_file),
                             UploadResponded second_file (Ok second_result)]))
     = Some (Some 0)
   \<and> map_option sockets
     (run new_FogifyEditor
        (analyzing_events @ [FileSelected (Some second_file),
                             UploadResponded second_file (Ok second_result)]))
     = Some [\<lparr>ws_url = ''ws://localhost:8000/ws/abc123'', ws_closed = False\<rparr>]"
  by (simp add: run_snoc [OF run_analyzing] run_snoc2 [OF run_analyzing] editor_ops example_eval
      analyzing_state_def)

section \<open>C7: reset\<close>

text \<open>
  C7, as the code has it. From every state the editor can be in, \<open>resetUpload\<close> clears the
  selected file, the task id and the socket reference, shows the upload section and hides
  the video section, the progress bar and the error, and closes the socket the editor
  refers to. It leaves the video information, with any analysis result in it, as it is.
  A second reset leaves every field of the editor as the first one left it. When the
  player holds an object URL, the reset passes it to \<open>URL.revokeObjectURL\<close>, and however
  often the reset is repeated that URL is passed exactly once; when the player never had a
  source, no number of resets revokes anything.
\<close>

theorem resetUpload_revokes_held_url_once:
  assumes "reachable s"
  shows "(resetUpload (resetUpload s))\<lparr>revoked := []\<rparr> = (resetUpload s)\<lparr>revoked := []\<rparr>
     \<and> currentFile (resetUpload s) = None
     \<and> currentTaskId (resetUpload s) = None
     \<and> websocket (resetUpload s) = None
     \<and> uploadSection_display (resetUpload s) = ''block''
     \<and> videoSection_display (resetUpload s) = ''none''
     \<and> uploadProgress_display (resetUpload s) = ''none''
     \<and> errorMessage_display (resetUpload s) = ''none''
     \<and> videoInfo (resetUpload s) = videoInfo s
     \<and> length (sockets (resetUpload s)) = length (sockets s)
     \<and> (websocket s = None \<longrightarrow> sockets (resetUpload s) = sockets s)
     \<and> (\<forall>k. websocket s = Some k \<longrightarrow> ws_closed (sockets (resetUpload s) ! k))
     \<and> (videoPlayer_src s = None \<longrightarrow>
          (\<forall>n. revoked ((resetUpload ^^ n) s) = revoked s))
     \<and> (\<forall>u. videoPlayer_src s = Some u \<and> u \<noteq> [] \<longrightarrow>
          revoked (resetUpload s) = revoked s @ [u]
          \<and> (\<forall>n. count_list (revoked ((resetUpload ^^ n) (resetUpload s))) u
                   = Suc (count_list (revoked s) u)))"
proof -
  have valid: "\<And>k. websocket s = Some k \<Longrightarrow> k < length (sockets s)"
    using assms by (rule reachable_websocket_valid)
  have ok: "src_ok s"
    using assms by (rule reachable_src_ok)
  have fields: "currentFile (resetUpload s) = None \<and> currentTaskId (resetUpload s) = None
      \<and> websocket (resetUpload s) = None
      \<and> uploadSection_display (resetUpload s) = ''block''
      \<and> videoSection_display (resetUpload s) = ''none''
      \<and> uploadProgress_display (resetUpload s) = ''none''
      \<and> errorMessage_display (resetUpload s) = ''none''
      \<and> videoInfo (resetUpload s) = videoInfo s"
    by (simp add: resetUpload_def hideProgress_def hideError_def ws_close_def Let_def
        split: option.splits)
  have socks: "length (sockets (resetUpload s)) = length (sockets s)
      \<and> (websocket s = None \<longrightarrow> sockets (resetUpload s) = sockets s)"
    by (simp add: resetUpload_def hideProgress_def hideError_def ws_close_def Let_def
        split: option.splits)
  have closed: "\<forall>k. websocket s = Some k \<longrightarrow> ws_closed (sockets (resetUpload s) ! k)"
    using valid
    by (auto simp add: resetUpload_def hideProgress_def hideError_def ws_close_def Let_def
        split: option.splits)
  have never: "videoPlayer_src s = None \<longrightarrow> (\<forall>n. revoked ((resetUpload ^^ n) s) = revoked s)"
  proof (intro impI allI)
    fix n
    assume none: "videoPlayer_src s = None"
    show "revoked ((resetUpload ^^ n) s) = revoked s"
    proof -
      have "videoPlayer_src ((resetUpload ^^ n) s) = None
          \<and> revoked ((resetUpload ^^ n) s) = revoked s"
      proof (induction n)
        case 0
        show ?case using none by simp
      next
        case (Suc n)
        then have "videoPlayer_src_get ((resetUpload ^^ n) s) = []"
          by (simp add: videoPlayer_src_get_def)
        with Suc show ?case
          by (simp add: resetUpload_revoked resetUpload_src)
      qed
      then show ?thesis by simp
    qed
  qed
  have held: "\<forall>u. videoPlayer_src s = Some u \<and> u \<noteq> [] \<longrightarrow>
          revoked (resetUpload s) = revoked s @ [u]
          \<and> (\<forall>n. count_list (revoked ((resetUpload ^^ n) (resetUpload s))) u
                   = Suc (count_list (revoked s) u))"
  proof (intro allI impI)
    fix u
    assume u: "videoPlayer_src s = Some u \<and> u \<noteq> []"
    then have get: "videoPlayer_src_get s = u"
      by (simp add: videoPlayer_src_get_def)
    from u ok have blob: "startsWith u ''blob:''" and page: "\<not> startsWith (documentURL s) ''blob:''"
      by (auto simp add: src_ok_def)
    then have differ: "u \<noteq> documentURL (resetUpload s)"
      by (auto simp add: resetUpload_src)
    have first: "revoked (resetUpload s) = revoked s @ [u]"
      using u get by (simp add: resetUpload_revoked)
    have released: "videoPlayer_src (resetUpload s) = None
        \<or> videoPlayer_src (resetUpload s) = Some []"
      using u get by (simp add: resetUpload_src)
    have "\<forall>n. count_list (revoked ((resetUpload ^^ n) (resetUpload s))) u
                   = Suc (count_list (revoked s) u)"
    proof
      fix n
      have "count_list (revoked ((resetUpload ^^ n) (resetUpload s))) u
          = count_list (revoked (resetUpload s)) u"
        using resets_after_release [OF released differ, of n] u by simp
      then show "count_list (revoked ((resetUpload ^^ n) (resetUpload s))) u
          = Suc (count_list (revoked s) u)"
        by (simp add: first)
    qed
    with first show "revoked (resetUpload s) = revoked s @ [u]
          \<and> (\<forall>n. count_list (revoked ((resetUpload ^^ n) (resetUpload s))) u
                   = Suc (count_list (revoked s) u))"
      by simp
  qed
  show ?thesis
    using fields socks closed never held resetUpload_twice_fields [of s] by simp
qed

theorem resetUpload_revokes_held_url_once_witness:
  "reachable playing_state
   \<and> websocket playing_state = Some 0
   \<and> ws_closed (sockets (resetUpload playing_state) ! 0)
   \<and> videoPlayer_src playing_state = Some ''blob:0''
   \<and> revoked (resetUpload playing_state) = [''blob:0'']
   \<and> count_list (revoked ((resetUpload ^^ 2) (resetUpload playing_state))) ''blob:0'' = 1
   \<and> reachable new_FogifyEditor
   \<and> websocket new_FogifyEditor = None
   \<and> videoPlayer_src new_FogifyEditor = None
   \<and> sockets (resetUpload new_FogifyEditor) = []
   \<and> revoked ((resetUpload ^^ 2) new_FogifyEditor) = []"
proof -
  have playing: "websocket playing_state = Some 0
      \<and> videoPlayer_src playing_state = Some ''blob:0'' \<and> revoked playing_state = []"
    by (simp add: playing_state_def analyzing_state_def)
  have new: "websocket new_FogifyEditor = None \<and> videoPlayer_src new_FogifyEditor = None
      \<and> sockets new_FogifyEditor = [] \<and> revoked new_FogifyEditor = []"
    by (simp add: new_FogifyEditor_def)
  from resetUpload_revokes_held_url_once [OF reachable_playing] playing
  have "ws_closed (sockets (resetUpload playing_state) ! 0)
      \<and> revoked (resetUpload playing_state) = [''blob:0'']
      \<and> count_list (revoked ((resetUpload ^^ 2) (resetUpload playing_state))) ''blob:0'' = 1"
    by simp
  moreover from resetUpload_revokes_held_url_once [OF reachable_new] new
  have "sockets (resetUpload new_FogifyEditor) = []
      \<and> revoked ((resetUpload ^^ 2) new_FogifyEditor) = []"
    by metis
  ultimately show ?thesis
    using reachable_playing reachable_new playing new by simp
qed

text \<open>
  C7 as stated fails: when the analysis is requested twice, completes on the second socket
  and the editor is reset, the analysis result is still in the video information and the
  first socket is still open; and a second reset in a row calls \<open>URL.revokeObjectURL\<close>
  again, on the address of the page, which the emptied \<open>src\<close> reads back as.
\<close>

theorem resetUpload_counterexample:
  "map_option videoInfo
     (run new_FogifyEditor
        (playing_events @ [AnalysisRequested, MessageReceived 1 (CompleteEvent example_summary),
                           ResetRequested]))
     = Some [VideoInfoBlock ''clip.mp4'' ''2:05'' 1920 1080 3000 (Fin 24) ''10 MB'',
             AnalysisResultBlock 3 3000]
   \<and> map_option sockets
     (run new_FogifyEditor
        (playing_events @ [AnalysisRequested, MessageReceived 1 (CompleteEvent example_summary),
                           ResetRequested]))
     = Some [\<lparr>ws_url = ''ws://localhost:8000/ws/abc123'', ws_closed = False\<rparr>,
             \<lparr>ws_url = ''ws://localhost:8000/ws/abc123'', ws_closed = True\<rparr>]
   \<and> map_option websocket
     (run new_FogifyEditor
        (playing_events @ [AnalysisRequested, MessageReceived 1 (CompleteEvent example_summary),
                           ResetRequested]))
     = Some None
   \<and> map_option revoked (run new_FogifyEditor (playing_events @ [ResetRequested]))
     = Some [''blob:0'']
   \<and> map_option revoked
     (run new_FogifyEditor (playing_events @ [ResetRequested, ResetRequested]))
     = Some [''blob:0'', ''http://localhost/index.html'']"
  by (simp add: run_snoc4 [OF run_playing] run_snoc2 [OF run_playing] run_snoc [OF run_playing]
      step_def startAnalysis_send_def connectWebSocket_def
      deliver_def onmessage_def onAnalysisComplete_def ws_close_def resetUpload_def
      videoPlayer_src_get_def hideProgress_def hideError_def Let_def example_summary_def
      playing_state_def analyzing_state_def example_page_def)

section \<open>C8: formatting of the upload metadata\<close>

text \<open>
  C8. For the upload metadata duration 125 seconds and file size 10485760 bytes,
  \<open>formatDuration\<close> returns exactly \<open>2:05\<close> and \<open>formatFileSize\<close> returns exactly \<open>10 MB\<close>.
\<close>

theorem format_upload_metadata:
  "formatDuration (Fin 125) = ''2:05'' \<and> formatFileSize 10485760 = ''10 MB''"
proof
  show "formatDuration (Fin 125) = ''2:05''"
    by code_simp
  show "formatFileSize 10485760 = ''10 MB''"
    by (simp add: formatFileSize_def sizes_def toFixed_example parseFloat_example
        floor_log.simps)
qed

section \<open>C9: a response that arrives late\<close>

text \<open>
  C9, as the code has it. The continuation of an upload compares no task id: whatever the
  editor holds when an accepted upload's response arrives, the task id of the response
  becomes the current one, its metadata is displayed and the player timer is started.
  \<open>resetUpload\<close> leaves the outstanding continuations as they are, so a response is
  still handled after a reset.
\<close>

theorem late_upload_response_is_applied:
  "currentTaskId (uploadFileToServer_resume s f (Ok r)) = Some (task_id r)
   \<and> videoInfo (uploadFileToServer_resume s f (Ok r))
     = [VideoInfoBlock (filename r) (formatDuration (duration (metadata r)))
          (width (metadata r)) (height (metadata r)) (frame_count (metadata r))
          (fps (metadata r)) (formatFileSize (md_file_size (metadata r)))]
   \<and> pending (uploadFileToServer_resume s f (Ok r)) = pending s @ [PlayerTimer f]
   \<and> pending (resetUpload s) = pending s
   \<and> step (resetUpload s) (UploadResponded f resp)
     = (if AwaitUpload f \<in> set (pending s)
        then Some (uploadFileToServer_resume (resume (resetUpload s) (AwaitUpload f)) f resp)
        else None)"
  by (simp add: uploadFileToServer_resume_def uploadFileToServer_try_def showVideoInfo_def
      updateProgress_def resetUpload_def hideProgress_def hideError_def ws_close_def step_def
      Let_def split: option.splits)

text \<open>
  C9 as stated fails: a response that arrives after a reset sets the task id and displays
  its metadata; and when a second file is selected while the first upload is outstanding and
  the first response arrives last, the editor ends with the task id of the first upload and
  the second file.
\<close>

theorem stale_upload_response_counterexample:
  "map_option currentTaskId
     (run new_FogifyEditor
        [FileSelected (Some example_file), ResetRequested,
         UploadResponded example_file (Ok example_result)])
     = Some (Some ''abc123'')
   \<and> map_option videoInfo
     (run new_FogifyEditor
        [FileSelected (Some example_file), ResetRequested,
         UploadResponded example_file (Ok example_result)])
     = Some [VideoInfoBlock ''clip.mp4'' ''2:05'' 1920 1080 3000 (Fin 24) ''10 MB'']
   \<and> map_option currentTaskId
     (run new_FogifyEditor
        [FileSelected (Some example_file), FileSelected (Some second_file),
         UploadResponded second_file (Ok second_result),
         UploadResponded example_file (Ok example_result)])
     = Some (Some ''abc123'')
   \<and> map_option currentFile
     (run new_FogifyEditor
        [FileSelected (Some example_file), FileSelected (Some second_file),
         UploadResponded second_file (Ok second_result),
         UploadResponded example_file (Ok example_result)])
     = Some (Some second_file)"
  by (simp add: editor_ops example_eval new_FogifyEditor_def)

section \<open>C10: a rejected file\<close>

text \<open>
  C10. When the validation of a file fails, \<open>handleFileSelect\<close> only shows an error:
  \<open>currentFile\<close>, \<open>currentTaskId\<close>, the socket reference and the sockets keep their values,
  no request is sent and no continuation is left outstanding.
\<close>

theorem failed_validation_keeps_session:
  assumes "fst (validateFile s file) = False"
  shows "currentFile (handleFileSelect s file) = currentFile s
     \<and> currentTaskId (handleFileSelect s file) = currentTaskId s
     \<and> websocket (handleFileSelect s file) = websocket s
     \<and> sockets (handleFileSelect s file) = sockets s
     \<and> requests (handleFileSelect s file) = requests s
     \<and> pending (handleFileSelect s file) = pending s
     \<and> (\<exists>message. handleFileSelect s file = showError s message)"
proof -
  obtain m where "handleFileSelect s file = showError s m"
    using handleFileSelect_rejected [OF assms] validateFile_rejects [OF assms] by auto
  then show ?thesis
    by (auto simp add: showError_def)
qed

theorem failed_validation_keeps_session_witness:
  "fst (validateFile analyzing_state (Some text_file)) = False
   \<and> currentFile (handleFileSelect analyzing_state (Some text_file)) = Some example_file
   \<and> currentTaskId (handleFileSelect analyzing_state (Some text_file)) = Some ''abc123''
   \<and> websocket (handleFileSelect analyzing_state (Some text_file)) = Some 0
   \<and> requests (handleFileSelect analyzing_state (Some text_file))
       = [PostUpload example_file, PostAnalyze ''abc123'']"
proof -
  have rejected: "fst (validateFile analyzing_state (Some text_file)) = False"
    by (simp add: validateFile_def fileExtension_examples supportedFormats_def)
  show ?thesis
    using rejected failed_validation_keeps_session [OF rejected]
    by (simp add: analyzing_state_def)
qed

end
